theory Spec2Isabelle
  imports
    Main
    "HOL-Library.Sublist"
    "HOL-Library.Char_ord"
    "HOL-Library.List_Lexorder"
begin

section \<open>The SQLModel field code generator (practice/field\_generator\_gui.py)\<close>

text \<open>
  The class \<^verbatim>\<open>FieldGeneratorGUI\<close> keeps a list of field dictionaries, filled by
  \<^verbatim>\<open>add_field\<close> from the entry widgets, and \<^verbatim>\<open>generate_code\<close> turns that list into the
  text of a model class: import lines, a class header and one declaration per field, each
  made by \<^verbatim>\<open>generate_field_code\<close>.

  Text is \<open>string\<close>: a list of characters, each a code point below 256. The Python
  operations used by the source (\<^verbatim>\<open>strip\<close>, \<^verbatim>\<open>lower\<close>, \<^verbatim>\<open>startswith\<close>, \<^verbatim>\<open>in\<close>, \<^verbatim>\<open>join\<close>,
  \<^verbatim>\<open>float\<close>, \<^verbatim>\<open>sorted\<close>) are written out below as they act on such text.
\<close>

subsection \<open>Python string operations\<close>

text \<open>\<^verbatim>\<open>str.isspace\<close> on one character: the twelve white-space code points below 256.\<close>

definition isspace :: "char \<Rightarrow> bool" where
  "isspace c = (c \<in> set [CHR 0x09, CHR 0x0A, CHR 0x0B, CHR 0x0C, CHR 0x0D,
                          CHR 0x1C, CHR 0x1D, CHR 0x1E, CHR 0x1F, CHR 0x20,
                          CHR 0x85, CHR 0xA0])"

text \<open>\<^verbatim>\<open>s.strip()\<close>: leading and trailing white space removed.\<close>

definition strip :: "string \<Rightarrow> string" where
  "strip s = rev (dropWhile isspace (rev (dropWhile isspace s)))"

text \<open>
  \<^verbatim>\<open>s.lower()\<close>: below 256 the upper-case letters are \<open>A\<close> to \<open>Z\<close> and the code points
  192 to 222 except the multiplication sign 215; each has its lower-case letter 32 above.
\<close>

definition lower_char :: "char \<Rightarrow> char" where
  "lower_char c =
     (let n = (of_char c :: nat)
      in if (65 \<le> n \<and> n \<le> 90) \<or> (192 \<le> n \<and> n \<le> 222 \<and> n \<noteq> 215)
         then char_of (n + 32) else c)"

definition lower :: "string \<Rightarrow> string" where
  "lower s = map lower_char s"

text \<open>\<^verbatim>\<open>s.startswith(p)\<close> and \<^verbatim>\<open>p in s\<close>.\<close>

definition startswith :: "string \<Rightarrow> string \<Rightarrow> bool" where
  "startswith s p = prefix p s"

definition contains :: "string \<Rightarrow> string \<Rightarrow> bool" where
  "contains s p = sublist p s"

text \<open>\<^verbatim>\<open>sep.join(xs)\<close>.\<close>

fun join :: "string \<Rightarrow> string list \<Rightarrow> string" where
  "join sep [] = []"
| "join sep [x] = x"
| "join sep (x # y # ys) = x @ sep @ join sep (y # ys)"

subsection \<open>The built-in \<^verbatim>\<open>float\<close> on text\<close>

text \<open>
  \<^verbatim>\<open>float(s)\<close> either returns a number or raises \<^verbatim>\<open>ValueError\<close>; the source throws the
  number away and only looks at which of the two happened, so the model returns no value.
  The accepted texts are those of the language reference:
  \<^verbatim>\<open>
    floatvalue  ::= [sign] (floatnumber | "inf" | "infinity" | "nan")   (any letter case)
    floatnumber ::= number [exponent]
    number      ::= [digitpart] "." digitpart | digitpart ["."]
    exponent    ::= ("e" | "E") [sign] digitpart
    digitpart   ::= digit (["_"] digit)*
  \<close>
  surrounded by white space, which for \<^verbatim>\<open>float\<close> is tab to carriage return, the blank, and
  the two white-space code points above 127. Below 256 the only decimal digits are
  \<open>0\<close> to \<open>9\<close>.
\<close>

datatype py_exception = ValueError

definition is_digit :: "char \<Rightarrow> bool" where
  "is_digit c = (c \<in> set ''0123456789'')"

fun digitpart :: "string \<Rightarrow> bool" where
  "digitpart [] = False"
| "digitpart [c] = is_digit c"
| "digitpart (c # d # cs) =
     (is_digit c \<and> (if d = CHR ''_'' then digitpart cs else digitpart (d # cs)))"

definition is_sign :: "char \<Rightarrow> bool" where
  "is_sign c = (c = CHR ''+'' \<or> c = CHR ''-'')"

definition drop_sign :: "string \<Rightarrow> string" where
  "drop_sign s = (case s of [] \<Rightarrow> [] | c # cs \<Rightarrow> if is_sign c then cs else c # cs)"

definition number :: "string \<Rightarrow> bool" where
  "number s =
     (let ip = takeWhile (\<lambda>c. c \<noteq> CHR ''.'') s; rest = dropWhile (\<lambda>c. c \<noteq> CHR ''.'') s
      in case rest of
           [] \<Rightarrow> digitpart ip
         | _ # fp \<Rightarrow> (ip = [] \<or> digitpart ip) \<and> (fp = [] \<or> digitpart fp)
                      \<and> \<not> (ip = [] \<and> fp = []))"

definition is_e :: "char \<Rightarrow> bool" where
  "is_e c = (c = CHR ''e'' \<or> c = CHR ''E'')"

definition floatnumber :: "string \<Rightarrow> bool" where
  "floatnumber s =
     (let m = takeWhile (\<lambda>c. \<not> is_e c) s; rest = dropWhile (\<lambda>c. \<not> is_e c) s
      in case rest of
           [] \<Rightarrow> number m
         | _ # ex \<Rightarrow> number m \<and> digitpart (drop_sign ex))"

definition float_space :: "char \<Rightarrow> bool" where
  "float_space c = (c \<in> set [CHR 0x09, CHR 0x0A, CHR 0x0B, CHR 0x0C, CHR 0x0D, CHR 0x20,
                              CHR 0x85, CHR 0xA0])"

definition float_py :: "string \<Rightarrow> py_exception + unit" where
  "float_py s =
     (let t = rev (dropWhile float_space (rev (dropWhile float_space s)));
          u = drop_sign t
      in if lower u \<in> {''inf'', ''infinity'', ''nan''} \<or> floatnumber u
         then Inr () else Inl ValueError)"

subsection \<open>The field dictionary\<close>

text \<open>
  \<^verbatim>\<open>field_info\<close> as \<^verbatim>\<open>add_field\<close> builds it: nine keys; the last five hold a text or
  \<^verbatim>\<open>None\<close>.
\<close>

record field_info =
  name :: string
  type :: string
  optional :: bool
  primary_key :: bool
  default :: "string option"
  description :: "string option"
  min_value :: "string option"
  max_value :: "string option"
  decimal_places :: "string option"

text \<open>Truth value of a key holding a text or \<^verbatim>\<open>None\<close>: false for \<^verbatim>\<open>None\<close> and for the empty text.\<close>

definition truthy :: "string option \<Rightarrow> bool" where
  "truthy v = (case v of None \<Rightarrow> False | Some s \<Rightarrow> s \<noteq> [])"

subsection \<open>\<^verbatim>\<open>generate_field_code\<close>\<close>

text \<open>The type annotation (source lines 327 to 331).\<close>

definition type_annotation :: "field_info \<Rightarrow> string" where
  "type_annotation f =
     (if optional f then ''Optional['' @ type f @ '']'' else type f)"

text \<open>
  The parameter appended for a default that is not \<^verbatim>\<open>None\<close> (source lines 338 to 355): the
  chain of tests in the order of the source, the \<^verbatim>\<open>try\<close> with its \<^verbatim>\<open>except ValueError\<close> as
  the last case.
\<close>

definition default_param :: "string \<Rightarrow> string" where
  \<open>default_param d =
     (if lower d \<in> set [''none'', ''null''] then ''default=None''
      else if lower d = ''true'' then ''default=True''
      else if lower d = ''false'' then ''default=False''
      else if startswith d ''datetime.'' then ''default_factory='' @ d
      else if startswith d ''uuid.'' then ''default_factory='' @ d
      else case float_py d of
             Inr _ \<Rightarrow> ''default='' @ d
           | Inl ValueError \<Rightarrow> ''default="'' @ d @ ''"'')\<close>

text \<open>The parameters each block of the source appends, in the order of the blocks.\<close>

definition default_params :: "field_info \<Rightarrow> string list" where
  "default_params f =
     (case default f of
        Some d \<Rightarrow> [default_param d]
      | None \<Rightarrow> if optional f then [''default=None''] else [])"

definition primary_key_params :: "field_info \<Rightarrow> string list" where
  "primary_key_params f = (if primary_key f then [''primary_key=True''] else [])"

definition min_params :: "field_info \<Rightarrow> string list" where
  "min_params f =
     (if truthy (min_value f)
      then (if type f = ''str'' then [''min_length='' @ the (min_value f)]
            else [''ge='' @ the (min_value f)])
      else [])"

definition max_params :: "field_info \<Rightarrow> string list" where
  "max_params f =
     (if truthy (max_value f)
      then (if type f = ''str'' then [''max_length='' @ the (max_value f)]
            else [''le='' @ the (max_value f)])
      else [])"

definition decimal_params :: "field_info \<Rightarrow> string list" where
  "decimal_params f =
     (if type f = ''Decimal''
      then (if truthy (max_value f) then [''max_digits='' @ the (max_value f)] else [])
         @ (if truthy (decimal_places f)
            then [''decimal_places='' @ the (decimal_places f)] else [])
      else [])"

definition description_params :: "field_info \<Rightarrow> string list" where
  \<open>description_params f =
     (if truthy (description f) then [''description="'' @ the (description f) @ ''"'']
      else [])\<close>

definition field_params :: "field_info \<Rightarrow> string list" where
  "field_params f =
     default_params f @ primary_key_params f @ min_params f @ max_params f
       @ decimal_params f @ description_params f"

definition field_def :: "field_info \<Rightarrow> string" where
  "field_def f =
     (if field_params f \<noteq> [] then ''Field('' @ join '', '' (field_params f) @ '')''
      else ''Field()'')"

definition generate_field_code :: "field_info \<Rightarrow> string" where
  "generate_field_code f = name f @ '': '' @ type_annotation f @ '' = '' @ field_def f"

subsection \<open>The widgets and the state of the window\<close>

text \<open>
  The type selector is a read-only combo box over the keys of \<^verbatim>\<open>self.field_types\<close>, so its
  variable holds one of the twelve keys or, before a choice and after \<^verbatim>\<open>clear_inputs\<close>, the
  empty text: \<open>None\<close> here. The keys are labels in Chinese followed by the Python type
  in brackets; \<^verbatim>\<open>field_types\<close> maps each to the type text.
\<close>

datatype type_choice =
    IntChoice | StrChoice | BoolChoice | FloatChoice | DecimalChoice | DatetimeChoice
  | DateChoice | TimeChoice | UUIDChoice | EnumChoice | DictChoice | ListStrChoice

fun field_types :: "type_choice \<Rightarrow> string" where
  "field_types IntChoice = ''int''"
| "field_types StrChoice = ''str''"
| "field_types BoolChoice = ''bool''"
| "field_types FloatChoice = ''float''"
| "field_types DecimalChoice = ''Decimal''"
| "field_types DatetimeChoice = ''datetime''"
| "field_types DateChoice = ''date''"
| "field_types TimeChoice = ''time''"
| "field_types UUIDChoice = ''uuid.UUID''"
| "field_types EnumChoice = ''Enum''"
| "field_types DictChoice = ''Dict[str, Any]''"
| "field_types ListStrChoice = ''List[str]''"

datatype entry_state = Normal | Disabled

text \<open>The list \<^verbatim>\<open>self.fields\<close> is \<open>field_list\<close>.\<close>

record gui =
  field_list :: "field_info list"
  field_listbox :: "string list"
  code_text :: string
  field_name_var :: string
  field_type_var :: "type_choice option"
  optional_var :: bool
  primary_key_var :: bool
  default_value_var :: string
  description_var :: string
  min_value_var :: string
  max_value_var :: string
  decimal_places_var :: string
  decimal_entry :: entry_state

text \<open>
  A method ends by showing a dialog. The error and warning dialogs come with an early
  return: \<open>MissingRequiredField\<close> stands for the two \<^verbatim>\<open>showerror\<close> calls of \<^verbatim>\<open>add_field\<close>
  (no field name, no field type) and \<open>EmptyInput\<close> for the \<^verbatim>\<open>showwarning\<close> of
  \<^verbatim>\<open>generate_code\<close> (no field added yet). The \<^verbatim>\<open>showinfo\<close> dialogs report success.
\<close>

datatype required_key = FieldName | FieldType

datatype error = MissingRequiredField required_key | EmptyInput

datatype info = FieldAdded string | CodeGenerated

text \<open>
  Three literals of the source hold characters beyond 255: the docstring of the generated
  class and the two tags of the list box. They are written as their UTF-8 bytes; nothing
  in the program inspects them.
\<close>

definition model_docstring :: string where
  "model_docstring = 
     [CHR 0xE8, CHR 0x87, CHR 0xAA, CHR 0xE5, CHR 0x8A, CHR 0xA8, CHR 0xE7, CHR 0x94,
      CHR 0x9F, CHR 0xE6, CHR 0x88, CHR 0x90, CHR 0xE7, CHR 0x9A, CHR 0x84, CHR 0xE6,
      CHR 0xA8, CHR 0xA1, CHR 0xE5, CHR 0x9E, CHR 0x8B, CHR 0xE7, CHR 0xB1, CHR 0xBB]"

definition optional_tag :: string where
  "optional_tag = '' ['' @ [CHR 0xE5, CHR 0x8F, CHR 0xAF, CHR 0xE9, CHR 0x80, CHR 0x89] @ '']''"

definition primary_key_tag :: string where
  "primary_key_tag = '' ['' @ [CHR 0xE4, CHR 0xB8, CHR 0xBB, CHR 0xE9, CHR 0x94, CHR 0xAE] @ '']''"

subsection \<open>\<^verbatim>\<open>clear_inputs\<close> and \<^verbatim>\<open>add_field\<close>\<close>

definition clear_inputs :: "gui \<Rightarrow> gui" where
  "clear_inputs g =
     g\<lparr>field_name_var := [], field_type_var := None, optional_var := False,
       primary_key_var := False, default_value_var := [], description_var := [],
       min_value_var := [], max_value_var := [], decimal_places_var := [],
       decimal_entry := Disabled\<rparr>"

text \<open>\<^verbatim>\<open>v.get().strip() if v.get().strip() else None\<close>.\<close>

definition strip_or_none :: "string \<Rightarrow> string option" where
  "strip_or_none s = (if strip s \<noteq> [] then Some (strip s) else None)"

definition display_text :: "field_info \<Rightarrow> string" where
  "display_text f =
     name f @ '' ('' @ type f @ '')''
       @ (if optional f then optional_tag else [])
       @ (if primary_key f then primary_key_tag else [])"

definition add_field :: "gui \<Rightarrow> (error + info) \<times> gui" where
  "add_field g =
     (if strip (field_name_var g) = [] then (Inl (MissingRequiredField FieldName), g)
      else case field_type_var g of
        None \<Rightarrow> (Inl (MissingRequiredField FieldType), g)
      | Some choice \<Rightarrow>
          let f = \<lparr>name = strip (field_name_var g),
                   type = field_types choice,
                   optional = optional_var g,
                   primary_key = primary_key_var g,
                   default = strip_or_none (default_value_var g),
                   description = strip_or_none (description_var g),
                   min_value = strip_or_none (min_value_var g),
                   max_value = strip_or_none (max_value_var g),
                   decimal_places = strip_or_none (decimal_places_var g)\<rparr>
          in (Inr (FieldAdded (name f)),
              clear_inputs (g\<lparr>field_list := field_list g @ [f],
                               field_listbox := field_listbox g @ [display_text f]\<rparr>)))"

subsection \<open>\<^verbatim>\<open>generate_code\<close>\<close>

text \<open>The body of the loop over the fields that adds the imports a field type needs.\<close>

definition import_step :: "field_info \<Rightarrow> string set \<Rightarrow> string set" where
  "import_step f imports =
     (if type f = ''Decimal'' then insert ''from decimal import Decimal'' imports
      else if type f \<in> set [''datetime'', ''date'', ''time'']
        then insert ''from datetime import datetime, date, time'' imports
      else if type f = ''uuid.UUID'' then insert ''import uuid'' imports
      else if contains (type f) ''Dict'' \<or> contains (type f) ''List''
        then insert ''from typing import Dict, List, Any'' imports
      else imports)"

definition collect_imports :: "field_info list \<Rightarrow> string set" where
  "collect_imports fs =
     fold import_step fs
       {''from typing import Optional'', ''from sqlmodel import SQLModel, Field''}"

text \<open>
  \<^verbatim>\<open>sorted(imports)\<close>: the elements of the set in ascending order, which for Python text is
  the lexicographic order of the code points.
\<close>

definition import_lines :: "field_info list \<Rightarrow> string list" where
  "import_lines fs = sorted_list_of_set (collect_imports fs)"

definition header_lines :: "string list" where
  \<open>header_lines =
     ['''', ''class GeneratedModel(SQLModel, table=True):'',
      ''    """'' @ model_docstring @ ''"""'', '''']\<close>

definition declaration_lines :: "field_info list \<Rightarrow> string list" where
  "declaration_lines fs = map (\<lambda>f. ''    '' @ generate_field_code f) fs"

definition code_lines :: "field_info list \<Rightarrow> string list" where
  "code_lines fs = import_lines fs @ header_lines @ declaration_lines fs"

definition generate_code :: "gui \<Rightarrow> (error + info) \<times> gui" where
  "generate_code g =
     (if field_list g = [] then (Inl EmptyInput, g)
      else (Inr CodeGenerated,
            g\<lparr>code_text := join [CHR 0x0A] (code_lines (field_list g))\<rparr>))"

subsection \<open>The branch taken for a default value\<close>

text \<open>
  Which branch of the chain in \<open>default_param\<close> a raw default takes: the same tests in
  the same order, with the branch named instead of the parameter built. The two boolean
  branches share a name, and so do the two factory branches.
\<close>

datatype default_kind =
  NullDefault | BooleanDefault | FactoryDefault | NumericDefault | StringDefault

definition classify_default :: "string \<Rightarrow> default_kind" where
  "classify_default d =
     (if lower d \<in> set [''none'', ''null''] then NullDefault
      else if lower d = ''true'' then BooleanDefault
      else if lower d = ''false'' then BooleanDefault
      else if startswith d ''datetime.'' then FactoryDefault
      else if startswith d ''uuid.'' then FactoryDefault
      else case float_py d of
             Inr _ \<Rightarrow> NumericDefault
           | Inl ValueError \<Rightarrow> StringDefault)"

text \<open>
  The characters that can occur in a text \<^verbatim>\<open>float\<close> accepts; used to show that no
  keyword and no factory reference is such a text.
\<close>

definition float_char :: "char \<Rightarrow> bool" where
  "float_char c =
     (lower_char c \<in> set ''infatyn'' \<or> is_digit c \<or> c = CHR ''_'' \<or> c = CHR ''.''
      \<or> is_e c \<or> is_sign c \<or> float_space c)"

subsection \<open>Sample fields and windows\<close>

definition age_field :: field_info where
  "age_field =
     \<lparr>name = ''age'', type = ''int'', optional = True, primary_key = False,
      default = None, description = None, min_value = Some ''0'',
      max_value = Some ''150'', decimal_places = None\<rparr>"

definition price_field :: field_info where
  "price_field =
     \<lparr>name = ''price'', type = ''Decimal'', optional = False, primary_key = False,
      default = None, description = None, min_value = None,
      max_value = Some ''8'', decimal_places = Some ''2''\<rparr>"

definition title_field :: field_info where
  "title_field =
     \<lparr>name = ''title'', type = ''str'', optional = False, primary_key = False,
      default = None, description = None, min_value = Some ''0'',
      max_value = Some ''50'', decimal_places = None\<rparr>"

definition flag_field :: field_info where
  "flag_field =
     \<lparr>name = ''active'', type = ''bool'', optional = False, primary_key = False,
      default = Some ''true'', description = None, min_value = None,
      max_value = None, decimal_places = None\<rparr>"

definition created_field :: field_info where
  "created_field =
     \<lparr>name = ''created'', type = ''datetime'', optional = False, primary_key = False,
      default = Some ''datetime.now'', description = None, min_value = None,
      max_value = None, decimal_places = None\<rparr>"

definition updated_field :: field_info where
  "updated_field =
     \<lparr>name = ''updated'', type = ''datetime'', optional = True, primary_key = False,
      default = None, description = None, min_value = None,
      max_value = None, decimal_places = None\<rparr>"

definition status_field :: field_info where
  "status_field =
     \<lparr>name = ''status'', type = ''Enum'', optional = False, primary_key = False,
      default = None, description = None, min_value = None,
      max_value = None, decimal_places = None\<rparr>"

definition token_field :: field_info where
  "token_field =
     \<lparr>name = ''token'', type = ''str'', optional = False, primary_key = True,
      default = Some ''uuid.uuid4'', description = None, min_value = None,
      max_value = None, decimal_places = None\<rparr>"

text \<open>The entry widgets filled in for the field \<open>age\<close>, with blanks around the name.\<close>

definition age_form :: gui where
  "age_form =
     \<lparr>field_list = [], field_listbox = [], code_text = [],
      field_name_var = '' age '', field_type_var = Some IntChoice, optional_var = True,
      primary_key_var = False, default_value_var = [], description_var = [],
      min_value_var = ''0'', max_value_var = ''150'', decimal_places_var = [],
      decimal_entry = Disabled\<rparr>"

text \<open>A window holding two fields, and one holding none but still showing older text.\<close>

definition sample_window :: gui where
  "sample_window =
     \<lparr>field_list = [age_field, price_field], field_listbox = [], code_text = [],
      field_name_var = [], field_type_var = None, optional_var = False,
      primary_key_var = False, default_value_var = [], description_var = [],
      min_value_var = [], max_value_var = [], decimal_places_var = [],
      decimal_entry = Disabled\<rparr>"

definition empty_window :: gui where
  "empty_window =
     \<lparr>field_list = [], field_listbox = [], code_text = ''import uuid'',
      field_name_var = [], field_type_var = None, optional_var = False,
      primary_key_var = False, default_value_var = [], description_var = [],
      min_value_var = [], max_value_var = [], decimal_places_var = [],
      decimal_entry = Disabled\<rparr>"

section \<open>Properties\<close>

subsection \<open>Text operations\<close>

lemma lower_append: "lower (a @ b) = lower a @ lower b"
  by (simp add: lower_def)

lemma sublist_join: "t \<in> set xs \<Longrightarrow> sublist t (join sep xs)"
proof (induction sep xs rule: join.induct)
  case (1 sep)
  then show ?case by simp
next
  case (2 sep x)
  then show ?case by simp
next
  case (3 sep x y ys)
  show ?case
  proof (cases "t = x")
    case True
    then show ?thesis by simp
  next
    case False
    with 3 have "sublist t (join sep (y # ys))" by simp
    then obtain ps ss where "join sep (y # ys) = ps @ t @ ss"
      by (auto simp: sublist_def)
    then have "join sep (x # y # ys) = (x @ sep @ ps) @ t @ ss" by simp
    then show ?thesis unfolding sublist_def by blast
  qed
qed

lemma takeWhile_all: "dropWhile P s = [] \<Longrightarrow> takeWhile P s = s"
  by (metis append_Nil2 takeWhile_dropWhile_id)

lemma split_at_first:
  assumes "dropWhile P s = x # r"
  shows "\<not> P x \<and> set s = set (takeWhile P s) \<union> {x} \<union> set r"
proof -
  have "\<not> P x" using assms hd_dropWhile [of P s] by auto
  moreover have "set s = set (takeWhile P s @ dropWhile P s)" by simp
  then have "set s = set (takeWhile P s) \<union> {x} \<union> set r" using assms by auto
  ultimately show ?thesis by simp
qed

lemma dropWhile_chars: "c \<in> set s \<Longrightarrow> c \<in> set (dropWhile P s) \<or> P c"
  by (induction s) (auto split: if_splits)

subsection \<open>What \<^verbatim>\<open>float\<close> accepts\<close>

lemma float_py_cases: "float_py d = Inr () \<or> float_py d = Inl ValueError"
  by (simp add: float_py_def Let_def)

lemma digitpart_chars: "digitpart s \<Longrightarrow> c \<in> set s \<Longrightarrow> is_digit c \<or> c = CHR ''_''"
  by (induction s rule: digitpart.induct) (auto split: if_splits)

lemma number_chars:
  assumes "number s" "c \<in> set s"
  shows "is_digit c \<or> c = CHR ''_'' \<or> c = CHR ''.''"
proof (cases "dropWhile (\<lambda>c. c \<noteq> CHR ''.'') s")
  case Nil
  with assms(1) have "digitpart (takeWhile (\<lambda>c. c \<noteq> CHR ''.'') s)"
    by (simp add: number_def)
  with Nil have "digitpart s" by (simp add: takeWhile_all)
  with assms(2) show ?thesis by (auto dest: digitpart_chars)
next
  case (Cons x fp)
  from split_at_first [OF Cons]
  have x: "x = CHR ''.''"
    and s: "set s = set (takeWhile (\<lambda>c. c \<noteq> CHR ''.'') s) \<union> {x} \<union> set fp"
    by simp_all
  from Cons assms(1)
  have ip: "takeWhile (\<lambda>c. c \<noteq> CHR ''.'') s = []
      \<or> digitpart (takeWhile (\<lambda>c. c \<noteq> CHR ''.'') s)"
    and fp: "fp = [] \<or> digitpart fp"
    by (simp_all add: number_def Let_def)
  from s assms(2)
  consider "c \<in> set (takeWhile (\<lambda>c. c \<noteq> CHR ''.'') s)" | "c = x" | "c \<in> set fp"
    by auto
  then show ?thesis
  proof cases
    case 1
    with ip show ?thesis by (auto dest: digitpart_chars)
  next
    case 2
    with x show ?thesis by simp
  next
    case 3
    with fp show ?thesis by (auto dest: digitpart_chars)
  qed
qed

lemma drop_sign_chars: "c \<in> set s \<Longrightarrow> c \<in> set (drop_sign s) \<or> is_sign c"
  by (cases s) (auto simp: drop_sign_def split: if_splits)

lemma floatnumber_chars:
  assumes "floatnumber s" "c \<in> set s"
  shows "is_digit c \<or> c = CHR ''_'' \<or> c = CHR ''.'' \<or> is_e c \<or> is_sign c"
proof (cases "dropWhile (\<lambda>c. \<not> is_e c) s")
  case Nil
  with assms(1) have "number (takeWhile (\<lambda>c. \<not> is_e c) s)"
    by (simp add: floatnumber_def)
  with Nil have "number s" by (simp add: takeWhile_all)
  with assms(2) show ?thesis by (auto dest: number_chars)
next
  case (Cons x ex)
  from split_at_first [OF Cons]
  have x: "is_e x"
    and s: "set s = set (takeWhile (\<lambda>c. \<not> is_e c) s) \<union> {x} \<union> set ex"
    by simp_all
  from Cons assms(1)
  have m: "number (takeWhile (\<lambda>c. \<not> is_e c) s)" and ex: "digitpart (drop_sign ex)"
    by (simp_all add: floatnumber_def Let_def)
  from s assms(2)
  consider "c \<in> set (takeWhile (\<lambda>c. \<not> is_e c) s)" | "c = x" | "c \<in> set ex"
    by auto
  then show ?thesis
  proof cases
    case 1
    with m show ?thesis by (auto dest: number_chars)
  next
    case 2
    with x show ?thesis by simp
  next
    case 3
    then have "c \<in> set (drop_sign ex) \<or> is_sign c" by (rule drop_sign_chars)
    with ex show ?thesis by (auto dest: digitpart_chars)
  qed
qed

text \<open>Every character of an accepted text is one the grammar mentions.\<close>

lemma float_py_chars:
  assumes "float_py d = Inr ()" "c \<in> set d"
  shows "float_char c"
proof -
  let ?t = "rev (dropWhile float_space (rev (dropWhile float_space d)))"
  let ?u = "drop_sign ?t"
  from assms(1) have acc: "lower ?u \<in> {''inf'', ''infinity'', ''nan''} \<or> floatnumber ?u"
    by (simp add: float_py_def Let_def split: if_splits)
  have "c \<in> set (dropWhile float_space d) \<or> float_space c"
    using assms(2) by (rule dropWhile_chars)
  then have "c \<in> set ?t \<or> float_space c"
    using dropWhile_chars [of c "rev (dropWhile float_space d)" float_space] by auto
  then consider "float_space c" | "is_sign c" | "c \<in> set ?u"
    using drop_sign_chars [of c ?t] by auto
  then show ?thesis
  proof cases
    case 1
    then show ?thesis by (simp add: float_char_def)
  next
    case 2
    then show ?thesis by (simp add: float_char_def)
  next
    case 3
    from acc show ?thesis
    proof
      assume "lower ?u \<in> {''inf'', ''infinity'', ''nan''}"
      moreover have "lower_char c \<in> set (lower ?u)" using 3 by (simp add: lower_def)
      ultimately have "lower_char c \<in> set ''infatyn''" by auto
      then show ?thesis by (simp add: float_char_def)
    next
      assume "floatnumber ?u"
      then have "is_digit c \<or> c = CHR ''_'' \<or> c = CHR ''.'' \<or> is_e c \<or> is_sign c"
        using 3 by (rule floatnumber_chars)
      then show ?thesis by (auto simp add: float_char_def)
    qed
  qed
qed

lemma float_char_lower: "float_char c \<Longrightarrow> lower_char c \<notin> set ''oulrsd''"
  unfolding float_char_def float_space_def is_digit_def is_e_def is_sign_def
  by (auto simp: lower_char_def char_of_def bit_Suc_0_iff)

lemma not_float_if_letter:
  assumes "x \<in> set ''oulrsd''" "x \<in> set (lower d)"
  shows "float_py d = Inl ValueError"
proof -
  from assms(2) obtain c where c: "c \<in> set d" "lower_char c = x"
    by (auto simp: lower_def)
  have "float_py d \<noteq> Inr ()"
  proof
    assume "float_py d = Inr ()"
    then have "float_char c" using c(1) by (rule float_py_chars)
    then have "lower_char c \<notin> set ''oulrsd''" by (rule float_char_lower)
    with c(2) assms(1) show False by simp
  qed
  with float_py_cases [of d] show ?thesis by simp
qed

text \<open>The tests of the chain exclude one another, so their order decides nothing.\<close>

lemma keyword_not_float:
  assumes "lower d \<in> {''none'', ''null'', ''true'', ''false''}"
  shows "float_py d = Inl ValueError"
proof -
  from assms
  have "CHR ''o'' \<in> set (lower d) \<or> CHR ''u'' \<in> set (lower d) \<or> CHR ''l'' \<in> set (lower d)"
    by auto
  then show ?thesis using not_float_if_letter [of _ d] by auto
qed

lemma factory_not_float:
  assumes "startswith d ''datetime.'' \<or> startswith d ''uuid.''"
  shows "float_py d = Inl ValueError"
proof -
  from assms obtain r where "d = ''datetime.'' @ r \<or> d = ''uuid.'' @ r"
    by (auto simp: startswith_def prefix_def)
  then have "CHR ''d'' \<in> set (lower d) \<or> CHR ''u'' \<in> set (lower d)"
    by (auto simp: lower_def lower_char_def)
  then show ?thesis using not_float_if_letter [of _ d] by auto
qed

lemma factory_not_keyword:
  assumes "startswith d ''datetime.'' \<or> startswith d ''uuid.''"
  shows "lower d \<notin> {''none'', ''null'', ''true'', ''false''}"
proof -
  from assms obtain r where "d = ''datetime.'' @ r \<or> d = ''uuid.'' @ r"
    by (auto simp: startswith_def prefix_def)
  then show ?thesis by (auto simp: lower_def lower_char_def)
qed

lemma default_param_factory_iff:
  "default_param d = ''default_factory='' @ d \<longleftrightarrow>
     startswith d ''datetime.'' \<or> startswith d ''uuid.''"
proof
  assume "default_param d = ''default_factory='' @ d"
  then show "startswith d ''datetime.'' \<or> startswith d ''uuid.''"
    by (auto simp add: default_param_def split: if_splits sum.splits py_exception.splits)
next
  assume f: "startswith d ''datetime.'' \<or> startswith d ''uuid.''"
  then have "lower d \<notin> {''none'', ''null'', ''true'', ''false''}"
    by (rule factory_not_keyword)
  with f show "default_param d = ''default_factory='' @ d"
    by (auto simp add: default_param_def)
qed

subsection \<open>Parameters and the declaration\<close>

lemma param_in_code:
  assumes "t \<in> set (field_params f)"
  shows "contains (generate_field_code f) t"
proof -
  from assms have ne: "field_params f \<noteq> []" by auto
  from assms obtain ps ss where j: "join '', '' (field_params f) = ps @ t @ ss"
    using sublist_join [of t "field_params f" "'', ''"] by (auto simp: sublist_def)
  have "generate_field_code f =
      (name f @ '': '' @ type_annotation f @ '' = '' @ ''Field('' @ ps) @ t @ (ss @ '')'')"
    using ne j by (simp add: generate_field_code_def field_def_def)
  then show ?thesis unfolding contains_def sublist_def by blast
qed

lemma contains_type: "contains (generate_field_code f) (type f)"
proof (cases "optional f")
  case True
  then have "generate_field_code f =
      (name f @ '': '' @ ''Optional['') @ type f @ ('']'' @ '' = '' @ field_def f)"
    by (simp add: generate_field_code_def type_annotation_def)
  then show ?thesis unfolding contains_def sublist_def by blast
next
  case False
  then have "generate_field_code f = (name f @ '': '') @ type f @ ('' = '' @ field_def f)"
    by (simp add: generate_field_code_def type_annotation_def)
  then show ?thesis unfolding contains_def sublist_def by blast
qed

lemma min_param_mem:
  "min_value f = Some v \<Longrightarrow> v \<noteq> [] \<Longrightarrow>
     (if type f = ''str'' then ''min_length='' @ v else ''ge='' @ v) \<in> set (field_params f)"
  by (simp add: field_params_def min_params_def truthy_def)

lemma max_param_mem:
  "max_value f = Some v \<Longrightarrow> v \<noteq> [] \<Longrightarrow>
     (if type f = ''str'' then ''max_length='' @ v else ''le='' @ v) \<in> set (field_params f)"
  by (simp add: field_params_def max_params_def truthy_def)

lemma default_param_not_decimal_places: "\<not> prefix ''decimal_places='' (default_param d)"
  by (simp add: default_param_def split: sum.split py_exception.split)

lemma truthy_strip_or_none: "truthy (strip_or_none s) \<longleftrightarrow> strip_or_none s \<noteq> None"
  by (simp add: strip_or_none_def truthy_def)

lemma field_code_simps:
  "generate_field_code age_field = ''age: Optional[int] = Field(default=None, ge=0, le=150)''"
  "generate_field_code price_field =
     ''price: Decimal = Field(le=8, max_digits=8, decimal_places=2)''"
  "generate_field_code title_field = ''title: str = Field(min_length=0, max_length=50)''"
  "generate_field_code flag_field = ''active: bool = Field(default=True)''"
  "generate_field_code status_field = ''status: Enum = Field()''"
  by code_simp+

subsection \<open>The imports\<close>

lemma import_step_union: "import_step f S = S \<union> import_step f {}"
  by (simp add: import_step_def)

lemma fold_import_step:
  "fold import_step fs S = S \<union> (\<Union>f\<in>set fs. import_step f {})"
proof (induction fs arbitrary: S)
  case Nil
  show ?case by simp
next
  case (Cons f fs)
  have "fold import_step (f # fs) S = fold import_step fs (import_step f S)" by simp
  also have "\<dots> = import_step f S \<union> (\<Union>h\<in>set fs. import_step h {})" by (rule Cons.IH)
  also have "\<dots> = S \<union> (\<Union>h\<in>set (f # fs). import_step h {})"
    using import_step_union [of f S] by auto
  finally show ?case .
qed

lemma finite_import_step: "finite (import_step f {})"
  by (simp add: import_step_def)

lemma finite_collect_imports: "finite (collect_imports fs)"
  by (simp add: collect_imports_def fold_import_step finite_import_step)

lemma set_import_lines: "set (import_lines fs) = collect_imports fs"
  by (simp add: import_lines_def finite_collect_imports)

lemma collect_imports_append:
  "collect_imports (fs @ gs) = collect_imports fs \<union> collect_imports gs"
  by (auto simp add: collect_imports_def fold_import_step)

lemma sorted_base_imports:
  "sorted_list_of_set
     {''from typing import Optional'', ''from sqlmodel import SQLModel, Field''} =
   [''from sqlmodel import SQLModel, Field'', ''from typing import Optional'']"
  by code_simp

lemma sorted_datetime_imports:
  "sorted_list_of_set
     {''from typing import Optional'', ''from sqlmodel import SQLModel, Field'',
      ''from datetime import datetime, date, time''} =
   [''from datetime import datetime, date, time'',
    ''from sqlmodel import SQLModel, Field'',
    ''from typing import Optional'']"
  by code_simp

lemma sample_import_lines:
  "import_lines [age_field, price_field] =
     [''from decimal import Decimal'', ''from sqlmodel import SQLModel, Field'',
      ''from typing import Optional'']"
  by code_simp

section \<open>The claims\<close>

text \<open>
  Claim C1. For every list of at least one field, \<^verbatim>\<open>generate_code\<close> raises nothing: it ends
  with the success dialog and puts the joined code lines into the text widget. The code
  lines are the import lines, the four header lines, and then exactly one declaration line
  per field, the line of the \<open>i\<close>-th field at the \<open>i\<close>-th place after the header. A line
  is an entry of \<^verbatim>\<open>code_lines\<close>. The statement needs no assumption on the names and types
  of the fields, so it holds in particular when every name is non-blank and every type is
  one of the twelve.
\<close>

theorem generate_code_declarations:
  assumes "field_list g \<noteq> []"
  shows "generate_code g =
           (Inr CodeGenerated, g\<lparr>code_text := join [CHR 0x0A] (code_lines (field_list g))\<rparr>)
    \<and> length (code_lines (field_list g)) =
        length (import_lines (field_list g)) + 4 + length (field_list g)
    \<and> (\<forall>i<length (field_list g).
          code_lines (field_list g) ! (length (import_lines (field_list g)) + 4 + i) =
            ''    '' @ generate_field_code (field_list g ! i))"
  using assms
  by (simp add: generate_code_def code_lines_def header_lines_def declaration_lines_def
      nth_append)

theorem generate_code_declarations_witness:
  "field_list sample_window \<noteq> []
   \<and> fst (generate_code sample_window) = Inr CodeGenerated
   \<and> length (code_lines (field_list sample_window)) = 9
   \<and> code_lines (field_list sample_window) ! 7 =
       ''    age: Optional[int] = Field(default=None, ge=0, le=150)''
   \<and> code_lines (field_list sample_window) ! 8 =
       ''    price: Decimal = Field(le=8, max_digits=8, decimal_places=2)''"
proof -
  have l: "field_list sample_window = [age_field, price_field]"
    by (simp add: sample_window_def)
  have n: "field_list sample_window \<noteq> []" by (simp add: l)
  from generate_code_declarations [OF n]
  have g: "fst (generate_code sample_window) = Inr CodeGenerated"
    and len: "length (code_lines (field_list sample_window)) =
        length (import_lines (field_list sample_window)) + 4
          + length (field_list sample_window)"
    and nth: "\<forall>i<length (field_list sample_window).
        code_lines (field_list sample_window)
          ! (length (import_lines (field_list sample_window)) + 4 + i) =
            ''    '' @ generate_field_code (field_list sample_window ! i)"
    by simp_all
  have i0: "0 < length (field_list sample_window)"
    and i1: "1 < length (field_list sample_window)"
    by (simp_all add: l)
  from nth i0
  have "code_lines (field_list sample_window)
          ! (length (import_lines (field_list sample_window)) + 4 + 0) =
        ''    '' @ generate_field_code (field_list sample_window ! 0)"
    by blast
  then have a: "code_lines (field_list sample_window) ! 7 =
      ''    age: Optional[int] = Field(default=None, ge=0, le=150)''"
    by (simp add: l sample_import_lines field_code_simps)
  from nth i1
  have "code_lines (field_list sample_window)
          ! (length (import_lines (field_list sample_window)) + 4 + 1) =
        ''    '' @ generate_field_code (field_list sample_window ! 1)"
    by blast
  then have b: "code_lines (field_list sample_window) ! 8 =
      ''    price: Decimal = Field(le=8, max_digits=8, decimal_places=2)''"
    by (simp add: l sample_import_lines field_code_simps)
  from len have c: "length (code_lines (field_list sample_window)) = 9"
    by (simp add: l sample_import_lines)
  from n g a b c show ?thesis by simp
qed

text \<open>
  Claim C2. For the field \<open>age\<close> of type \<^verbatim>\<open>int\<close>, optional, without default, with minimum
  \<open>0\<close> and maximum \<open>150\<close>, \<^verbatim>\<open>generate_field_code\<close> returns exactly
  \<^verbatim>\<open>age: Optional[int] = Field(default=None, ge=0, le=150)\<close>: the type is wrapped in
  \<^verbatim>\<open>Optional\<close>, and the parameters are \<^verbatim>\<open>default=None\<close>, \<^verbatim>\<open>ge=0\<close>, \<^verbatim>\<open>le=150\<close> in this order.
  In general an optional field without default gets \<^verbatim>\<open>default=None\<close> as its first
  parameter.
\<close>

theorem age_declaration:
  "generate_field_code age_field = ''age: Optional[int] = Field(default=None, ge=0, le=150)''
   \<and> type_annotation age_field = ''Optional[int]''
   \<and> field_params age_field = [''default=None'', ''ge=0'', ''le=150'']
   \<and> field_params (f\<lparr>default := None, optional := True\<rparr>) ! 0 = ''default=None''"
proof -
  have "field_params (f\<lparr>default := None, optional := True\<rparr>) ! 0 = ''default=None''"
    by (simp add: field_params_def default_params_def)
  moreover have "type_annotation age_field = ''Optional[int]''"
    by (simp add: type_annotation_def age_field_def)
  moreover have "field_params age_field = [''default=None'', ''ge=0'', ''le=150'']"
    by (simp add: age_field_def field_params_def default_params_def primary_key_params_def
        min_params_def max_params_def decimal_params_def description_params_def truthy_def)
  ultimately show ?thesis by (simp add: field_code_simps)
qed

text \<open>
  Claim C3. The branch taken for a raw default is a function of the text alone, and each
  text takes exactly one of five: null when its lower-case form is \<open>none\<close> or \<open>null\<close>,
  boolean when it is \<open>true\<close> or \<open>false\<close>, factory when the text starts with
  \<^verbatim>\<open>datetime.\<close> or \<^verbatim>\<open>uuid.\<close>, numeric when \<^verbatim>\<open>float\<close> accepts it, and string in every
  other case, which is when \<^verbatim>\<open>float\<close> raises \<^verbatim>\<open>ValueError\<close>; the error is caught and the
  parameter is the text in double quotes. The parameter is determined by the branch. The
  default \<open>true\<close> on a field of type \<^verbatim>\<open>bool\<close> gives \<^verbatim>\<open>default=True\<close>.
\<close>

theorem default_classification:
  \<open>(classify_default d = NullDefault \<longleftrightarrow> lower d \<in> {''none'', ''null''})
   \<and> (classify_default d = BooleanDefault \<longleftrightarrow> lower d \<in> {''true'', ''false''})
   \<and> (classify_default d = FactoryDefault \<longleftrightarrow>
        startswith d ''datetime.'' \<or> startswith d ''uuid.'')
   \<and> (classify_default d = NumericDefault \<longleftrightarrow> float_py d = Inr ())
   \<and> (classify_default d = StringDefault \<longleftrightarrow>
        lower d \<notin> {''none'', ''null'', ''true'', ''false''}
        \<and> \<not> startswith d ''datetime.'' \<and> \<not> startswith d ''uuid.''
        \<and> float_py d = Inl ValueError)
   \<and> default_param d =
       (case classify_default d of
          NullDefault \<Rightarrow> ''default=None''
        | BooleanDefault \<Rightarrow> if lower d = ''true'' then ''default=True'' else ''default=False''
        | FactoryDefault \<Rightarrow> ''default_factory='' @ d
        | NumericDefault \<Rightarrow> ''default='' @ d
        | StringDefault \<Rightarrow> ''default="'' @ d @ ''"'')
   \<and> field_params (f\<lparr>default := Some ''true'', type := ''bool''\<rparr>) ! 0 = ''default=True''\<close>
proof (intro conjI)
  have fk: "lower d \<notin> {''none'', ''null'', ''true'', ''false''}"
    if "startswith d ''datetime.'' \<or> startswith d ''uuid.''"
    using that by (rule factory_not_keyword)
  have kf: "float_py d = Inl ValueError"
    if "lower d \<in> {''none'', ''null'', ''true'', ''false''}"
    using that by (rule keyword_not_float)
  have ff: "float_py d = Inl ValueError"
    if "startswith d ''datetime.'' \<or> startswith d ''uuid.''"
    using that by (rule factory_not_float)
  show "classify_default d = NullDefault \<longleftrightarrow> lower d \<in> {''none'', ''null''}"
    by (auto simp add: classify_default_def split: sum.splits py_exception.splits)
  show "classify_default d = BooleanDefault \<longleftrightarrow> lower d \<in> {''true'', ''false''}"
    by (auto simp add: classify_default_def split: sum.splits py_exception.splits)
  show "classify_default d = FactoryDefault \<longleftrightarrow>
        startswith d ''datetime.'' \<or> startswith d ''uuid.''"
    using fk by (auto simp add: classify_default_def split: sum.splits py_exception.splits)
  show "classify_default d = NumericDefault \<longleftrightarrow> float_py d = Inr ()"
    using kf ff by (auto simp add: classify_default_def split: sum.splits py_exception.splits)
  show "classify_default d = StringDefault \<longleftrightarrow>
        lower d \<notin> {''none'', ''null'', ''true'', ''false''}
        \<and> \<not> startswith d ''datetime.'' \<and> \<not> startswith d ''uuid.''
        \<and> float_py d = Inl ValueError"
    by (auto simp add: classify_default_def split: sum.splits py_exception.splits)
  show \<open>default_param d =
       (case classify_default d of
          NullDefault \<Rightarrow> ''default=None''
        | BooleanDefault \<Rightarrow> if lower d = ''true'' then ''default=True'' else ''default=False''
        | FactoryDefault \<Rightarrow> ''default_factory='' @ d
        | NumericDefault \<Rightarrow> ''default='' @ d
        | StringDefault \<Rightarrow> ''default="'' @ d @ ''"'')\<close>
    by (simp add: classify_default_def default_param_def
        split: sum.splits py_exception.splits)
  have t: "default_param ''true'' = ''default=True''" by code_simp
  show "field_params (f\<lparr>default := Some ''true'', type := ''bool''\<rparr>) ! 0 = ''default=True''"
    using t by (simp add: field_params_def default_params_def)
qed

theorem default_classification_witness:
  \<open>classify_default ''1e'' = StringDefault
   \<and> float_py ''1e'' = Inl ValueError
   \<and> default_param ''1e'' = ''default="1e"''
   \<and> field_params flag_field ! 0 = ''default=True''\<close>
proof -
  have e: "float_py ''1e'' = Inl ValueError" "lower ''1e'' = ''1e''"
    by code_simp+
  have "flag_field = flag_field\<lparr>default := Some ''true'', type := ''bool''\<rparr>"
    by (simp add: flag_field_def)
  then show ?thesis
    using default_classification [of "''1e''" flag_field] e
    by (simp add: startswith_def)
qed

text \<open>
  Claim C4. For every field of type \<^verbatim>\<open>Decimal\<close> whose maximum is present with value \<open>v\<close>,
  the parameters contain both \<^verbatim>\<open>le=v\<close> and \<^verbatim>\<open>max_digits=v\<close>, from the same value; a
  parameter starting with \<^verbatim>\<open>decimal_places=\<close> is among them exactly when the decimal places
  are present, and then it is \<^verbatim>\<open>decimal_places=p\<close> for their value \<open>p\<close>. A value is
  present when it is a non-empty text, which is the only kind \<^verbatim>\<open>add_field\<close> stores.
\<close>

theorem decimal_parameters:
  "type f = ''Decimal'' \<and> max_value f = Some v \<and> v \<noteq> [] \<longrightarrow>
     ''le='' @ v \<in> set (field_params f)
     \<and> ''max_digits='' @ v \<in> set (field_params f)
     \<and> ((\<exists>t\<in>set (field_params f). startswith t ''decimal_places='') \<longleftrightarrow>
          truthy (decimal_places f))
     \<and> (decimal_places f = Some p \<and> p \<noteq> [] \<longrightarrow>
          ''decimal_places='' @ p \<in> set (field_params f))"
  using default_param_not_decimal_places
  by (auto simp add: field_params_def default_params_def primary_key_params_def
      min_params_def max_params_def decimal_params_def description_params_def truthy_def
      startswith_def split: option.splits)

theorem decimal_parameters_witness:
  "type price_field = ''Decimal'' \<and> max_value price_field = Some ''8'' \<and> ''8'' \<noteq> []
   \<and> decimal_places price_field = Some ''2'' \<and> ''2'' \<noteq> []
   \<and> ''le=8'' \<in> set (field_params price_field)
   \<and> ''max_digits=8'' \<in> set (field_params price_field)
   \<and> ''decimal_places=2'' \<in> set (field_params price_field)"
  using decimal_parameters [of price_field "''8''" "''2''"]
  by (simp add: price_field_def)

text \<open>
  Claim C5. For every list of fields the import lines contain the two base imports, contain
  no line twice however many fields ask for it, and are in ascending lexicographic order;
  they are the first lines of the generated code. The imports of two lists put together
  are the union of the imports of each. For two fields of type \<^verbatim>\<open>datetime\<close> the import
  lines are exactly the date and time import followed by the two base imports.
\<close>

theorem imports_deduplicated_sorted:
  "''from typing import Optional'' \<in> set (import_lines fs)
   \<and> ''from sqlmodel import SQLModel, Field'' \<in> set (import_lines fs)
   \<and> distinct (import_lines fs)
   \<and> sorted (import_lines fs)
   \<and> set (import_lines (fs @ gs)) = set (import_lines fs) \<union> set (import_lines gs)
   \<and> take (length (import_lines fs)) (code_lines fs) = import_lines fs
   \<and> (type f = ''datetime'' \<and> type g = ''datetime'' \<longrightarrow>
        import_lines [f, g] =
          [''from datetime import datetime, date, time'',
           ''from sqlmodel import SQLModel, Field'',
           ''from typing import Optional''])"
proof -
  have base: "''from typing import Optional'' \<in> collect_imports fs"
    "''from sqlmodel import SQLModel, Field'' \<in> collect_imports fs"
    by (simp_all add: collect_imports_def fold_import_step)
  have d: "distinct (import_lines fs)" and s: "sorted (import_lines fs)"
    by (simp_all add: import_lines_def)
  have u: "set (import_lines (fs @ gs)) = set (import_lines fs) \<union> set (import_lines gs)"
    by (simp add: set_import_lines collect_imports_append)
  have t: "take (length (import_lines fs)) (code_lines fs) = import_lines fs"
    by (simp add: code_lines_def)
  have two: "import_lines [f, g] =
          [''from datetime import datetime, date, time'',
           ''from sqlmodel import SQLModel, Field'',
           ''from typing import Optional'']"
    if "type f = ''datetime''" "type g = ''datetime''"
  proof -
    have "collect_imports [f, g] =
        {''from typing import Optional'', ''from sqlmodel import SQLModel, Field'',
         ''from datetime import datetime, date, time''}"
      using that by (auto simp add: collect_imports_def import_step_def)
    then show ?thesis by (simp only: import_lines_def sorted_datetime_imports)
  qed
  show ?thesis using base d s u t two by (simp add: set_import_lines)
qed

theorem imports_deduplicated_sorted_witness:
  "type created_field = ''datetime'' \<and> type updated_field = ''datetime''
   \<and> import_lines [created_field, updated_field] =
       [''from datetime import datetime, date, time'',
        ''from sqlmodel import SQLModel, Field'',
        ''from typing import Optional'']"
  using imports_deduplicated_sorted [of "[]" "[]" created_field updated_field]
  by (simp add: created_field_def updated_field_def)

text \<open>
  Claim C6. With no field in the list, \<^verbatim>\<open>generate_code\<close> ends with the warning for empty
  input and changes nothing: the text widget keeps what it held, no code is produced.
\<close>

theorem generate_code_empty:
  "field_list g = [] \<Longrightarrow> generate_code g = (Inl EmptyInput, g)"
  by (simp add: generate_code_def)

theorem generate_code_empty_witness:
  "field_list empty_window = []
   \<and> generate_code empty_window = (Inl EmptyInput, empty_window)
   \<and> code_text (snd (generate_code empty_window)) = ''import uuid''"
proof -
  have e: "field_list empty_window = []" by (simp add: empty_window_def)
  from generate_code_empty [OF e] e show ?thesis by (simp add: empty_window_def)
qed

text \<open>
  Claim C7, as the program has it. \<^verbatim>\<open>add_field\<close> ends with the error for a missing required
  field exactly when the name is blank or no type is chosen, and then changes nothing. For
  every other content of the entry widgets it succeeds without any further check. Success
  is not free of effects: it appends the new field to the field list and its display text
  (name, type in brackets, then the tags for optional and primary key) to the list box,
  clears the entry widgets and disables the entry for the decimal places; it changes
  nothing else, so the generated text stays as it was.
\<close>

theorem add_field_validation:
  "(fst (add_field g) = Inl (MissingRequiredField FieldName) \<longleftrightarrow>
      strip (field_name_var g) = [])
   \<and> (fst (add_field g) = Inl (MissingRequiredField FieldType) \<longleftrightarrow>
      strip (field_name_var g) \<noteq> [] \<and> field_type_var g = None)
   \<and> ((\<exists>e. fst (add_field g) = Inl e) \<longleftrightarrow>
      strip (field_name_var g) = [] \<or> field_type_var g = None)
   \<and> fst (add_field g) \<noteq> Inl EmptyInput
   \<and> ((\<exists>e. fst (add_field g) = Inl e) \<longrightarrow> snd (add_field g) = g)
   \<and> (strip (field_name_var g) \<noteq> [] \<and> field_type_var g = Some c \<longrightarrow>
        fst (add_field g) = Inr (FieldAdded (strip (field_name_var g)))
        \<and> field_list (snd (add_field g)) =
            field_list g @
              [\<lparr>name = strip (field_name_var g),
                type = field_types c,
                optional = optional_var g,
                primary_key = primary_key_var g,
                default = strip_or_none (default_value_var g),
                description = strip_or_none (description_var g),
                min_value = strip_or_none (min_value_var g),
                max_value = strip_or_none (max_value_var g),
                decimal_places = strip_or_none (decimal_places_var g)\<rparr>]
        \<and> field_listbox (snd (add_field g)) =
            field_listbox g @
              [strip (field_name_var g) @ '' ('' @ field_types c @ '')''
                 @ (if optional_var g then optional_tag else [])
                 @ (if primary_key_var g then primary_key_tag else [])]
        \<and> snd (add_field g) =
            g\<lparr>field_list := field_list g @
                [\<lparr>name = strip (field_name_var g),
                  type = field_types c,
                  optional = optional_var g,
                  primary_key = primary_key_var g,
                  default = strip_or_none (default_value_var g),
                  description = strip_or_none (description_var g),
                  min_value = strip_or_none (min_value_var g),
                  max_value = strip_or_none (max_value_var g),
                  decimal_places = strip_or_none (decimal_places_var g)\<rparr>],
              field_listbox := field_listbox g @
                [strip (field_name_var g) @ '' ('' @ field_types c @ '')''
                   @ (if optional_var g then optional_tag else [])
                   @ (if primary_key_var g then primary_key_tag else [])],
              field_name_var := [], field_type_var := None, optional_var := False,
              primary_key_var := False, default_value_var := [], description_var := [],
              min_value_var := [], max_value_var := [], decimal_places_var := [],
              decimal_entry := Disabled\<rparr>
        \<and> code_text (snd (add_field g)) = code_text g)"
  by (cases "field_type_var g")
     (simp_all add: add_field_def clear_inputs_def display_text_def Let_def)

theorem add_field_validation_witness:
  "strip (field_name_var age_form) \<noteq> [] \<and> field_type_var age_form = Some IntChoice
   \<and> fst (add_field age_form) = Inr (FieldAdded ''age'')
   \<and> field_listbox age_form = []
   \<and> field_listbox (snd (add_field age_form)) = [''age (int)'' @ optional_tag]
   \<and> field_name_var (snd (add_field age_form)) = []
   \<and> field_type_var (snd (add_field age_form)) = None
   \<and> code_text (snd (add_field age_form)) = code_text age_form
   \<and> (\<exists>e. fst (add_field empty_window) = Inl e)
   \<and> snd (add_field empty_window) = empty_window"
proof -
  have s: "strip '' age '' = ''age''" "strip [] = []" by code_simp+
  show ?thesis
    using add_field_validation [of age_form IntChoice]
      add_field_validation [of empty_window IntChoice]
    by (simp add: age_form_def empty_window_def s)
qed

text \<open>
  The claim as written says that a successful construction has no side effects. Adding
  the field \<open>age\<close> to an empty window succeeds and leaves a field list of one entry.
\<close>

theorem add_field_changes_state:
  "fst (add_field age_form) = Inr (FieldAdded ''age'')
   \<and> field_list age_form = []
   \<and> field_list (snd (add_field age_form)) = [age_field]
   \<and> snd (add_field age_form) \<noteq> age_form"
proof -
  have s: "strip '' age '' = ''age''" "strip ''0'' = ''0''" "strip ''150'' = ''150''"
    "strip [] = []"
    by code_simp+
  have l: "field_list (snd (add_field age_form)) = [age_field]"
    by (simp add: add_field_def age_form_def age_field_def clear_inputs_def Let_def s
        strip_or_none_def)
  have e: "field_list age_form = []" by (simp add: age_form_def)
  from l e have "snd (add_field age_form) \<noteq> age_form" by auto
  moreover have "fst (add_field age_form) = Inr (FieldAdded ''age'')"
    by (simp add: add_field_def age_form_def Let_def s)
  ultimately show ?thesis using l e by simp
qed

text \<open>
  Claim C8. For every field whose minimum is present with value \<open>v\<close>, the parameters
  contain \<^verbatim>\<open>min_length=v\<close> when the type is \<^verbatim>\<open>str\<close> and \<^verbatim>\<open>ge=v\<close> for every other type, and
  the parameter is part of the declaration; likewise \<^verbatim>\<open>max_length=w\<close> and \<^verbatim>\<open>le=w\<close> for a
  maximum \<open>w\<close>. The value \<open>0\<close> is present: a bound of zero is emitted. A value is present
  when it is a non-empty text; what \<^verbatim>\<open>add_field\<close> stores for an entry is present exactly
  when it is not \<^verbatim>\<open>None\<close>.
\<close>

theorem bounds_emitted:
  "(min_value f = Some v \<and> v \<noteq> [] \<longrightarrow>
      (if type f = ''str'' then ''min_length='' @ v else ''ge='' @ v) \<in> set (field_params f)
      \<and> contains (generate_field_code f)
           (if type f = ''str'' then ''min_length='' @ v else ''ge='' @ v))
   \<and> (max_value f = Some w \<and> w \<noteq> [] \<longrightarrow>
      (if type f = ''str'' then ''max_length='' @ w else ''le='' @ w) \<in> set (field_params f)
      \<and> contains (generate_field_code f)
           (if type f = ''str'' then ''max_length='' @ w else ''le='' @ w))
   \<and> (if type f = ''str'' then ''min_length=0'' else ''ge=0'')
        \<in> set (field_params (f\<lparr>min_value := Some ''0''\<rparr>))
   \<and> (if type f = ''str'' then ''max_length=0'' else ''le=0'')
        \<in> set (field_params (f\<lparr>max_value := Some ''0''\<rparr>))
   \<and> (truthy (strip_or_none s) \<longleftrightarrow> strip_or_none s \<noteq> None)"
proof (intro conjI impI)
  assume a: "min_value f = Some v \<and> v \<noteq> []"
  then show m: "(if type f = ''str'' then ''min_length='' @ v else ''ge='' @ v)
      \<in> set (field_params f)"
    by (simp add: min_param_mem)
  show "contains (generate_field_code f)
      (if type f = ''str'' then ''min_length='' @ v else ''ge='' @ v)"
    using m by (rule param_in_code)
next
  assume a: "max_value f = Some w \<and> w \<noteq> []"
  then show m: "(if type f = ''str'' then ''max_length='' @ w else ''le='' @ w)
      \<in> set (field_params f)"
    by (simp add: max_param_mem)
  show "contains (generate_field_code f)
      (if type f = ''str'' then ''max_length='' @ w else ''le='' @ w)"
    using m by (rule param_in_code)
next
  show "(if type f = ''str'' then ''min_length=0'' else ''ge=0'')
      \<in> set (field_params (f\<lparr>min_value := Some ''0''\<rparr>))"
    by (simp add: field_params_def min_params_def truthy_def)
next
  show "(if type f = ''str'' then ''max_length=0'' else ''le=0'')
      \<in> set (field_params (f\<lparr>max_value := Some ''0''\<rparr>))"
    by (simp add: field_params_def max_params_def truthy_def)
next
  show "truthy (strip_or_none s) \<longleftrightarrow> strip_or_none s \<noteq> None"
    by (rule truthy_strip_or_none)
qed

theorem bounds_emitted_witness:
  "min_value title_field = Some ''0'' \<and> ''0'' \<noteq> []
   \<and> max_value title_field = Some ''50'' \<and> ''50'' \<noteq> []
   \<and> ''min_length=0'' \<in> set (field_params title_field)
   \<and> ''max_length=50'' \<in> set (field_params title_field)
   \<and> contains ''title: str = Field(min_length=0, max_length=50)'' ''min_length=0''
   \<and> min_value age_field = Some ''0''
   \<and> ''ge=0'' \<in> set (field_params age_field)
   \<and> ''le=150'' \<in> set (field_params age_field)"
  using bounds_emitted [of title_field "''0''" "''50''"]
    bounds_emitted [of age_field "''0''" "''150''"] field_code_simps(3)
  by (simp add: title_field_def age_field_def)

text \<open>
  Claim C9. A field of type \<^verbatim>\<open>Enum\<close> adds no import: for a list of such fields only, the
  import lines are exactly the two base imports, and the generated code is these two lines,
  the header and the declarations, although every declaration names the type \<^verbatim>\<open>Enum\<close>.
\<close>

theorem enum_needs_no_import:
  assumes "\<forall>f\<in>set fs. type f = ''Enum''"
  shows "import_lines fs =
           [''from sqlmodel import SQLModel, Field'', ''from typing import Optional'']
    \<and> code_lines fs =
        [''from sqlmodel import SQLModel, Field'', ''from typing import Optional'']
          @ header_lines @ declaration_lines fs
    \<and> (\<forall>f\<in>set fs. contains (generate_field_code f) ''Enum'')"
proof -
  have "import_step f {} = {}" if "f \<in> set fs" for f
    using assms that by (simp add: import_step_def contains_def sublist_Cons_right)
  then have "collect_imports fs =
      {''from typing import Optional'', ''from sqlmodel import SQLModel, Field''}"
    by (simp add: collect_imports_def fold_import_step)
  then have i: "import_lines fs =
      [''from sqlmodel import SQLModel, Field'', ''from typing import Optional'']"
    by (simp only: import_lines_def sorted_base_imports)
  have "contains (generate_field_code f) ''Enum''" if "f \<in> set fs" for f
    using assms that contains_type [of f] by simp
  with i show ?thesis by (simp add: code_lines_def)
qed

theorem enum_needs_no_import_witness:
  "type status_field = ''Enum''
   \<and> import_lines [status_field] =
       [''from sqlmodel import SQLModel, Field'', ''from typing import Optional'']
   \<and> generate_field_code status_field = ''status: Enum = Field()''"
proof -
  have t: "type status_field = ''Enum''" by (simp add: status_field_def)
  then have e: "\<forall>f\<in>set [status_field]. type f = ''Enum''" by simp
  from enum_needs_no_import [OF e] t show ?thesis
    by (simp add: field_code_simps)
qed

text \<open>
  Claim C10. A raw default becomes a \<^verbatim>\<open>default_factory\<close> parameter exactly when it starts
  with \<^verbatim>\<open>datetime.\<close> or \<^verbatim>\<open>uuid.\<close>, letter case respected; neither the numeric test nor the
  fall-back to a quoted text gets a say, and the parameter of a field never depends on its
  type. The tests for \<open>none\<close>, \<open>null\<close>, \<open>true\<close> and \<open>false\<close> ignore letter case and come
  first. So \<^verbatim>\<open>uuid.uuid4\<close> gives \<^verbatim>\<open>default_factory=uuid.uuid4\<close> on every field, and
  \<^verbatim>\<open>Uuid.uuid4\<close> gives the quoted text.
\<close>

theorem factory_default_recognition:
  \<open>(default_param d = ''default_factory='' @ d \<longleftrightarrow>
       startswith d ''datetime.'' \<or> startswith d ''uuid.'')
   \<and> (lower n \<in> {''none'', ''null''} \<longrightarrow> default_param n = ''default=None'')
   \<and> (lower t \<in> {''true'', ''false''} \<longrightarrow>
        default_param t = (if lower t = ''true'' then ''default=True'' else ''default=False''))
   \<and> field_params (f\<lparr>default := Some d\<rparr>) ! 0 = default_param d
   \<and> field_params (f\<lparr>default := Some ''uuid.uuid4''\<rparr>) ! 0 = ''default_factory=uuid.uuid4''
   \<and> field_params (f\<lparr>default := Some ''Uuid.uuid4''\<rparr>) ! 0 = ''default="Uuid.uuid4"''\<close>
proof (intro conjI impI)
  show "default_param d = ''default_factory='' @ d \<longleftrightarrow>
       startswith d ''datetime.'' \<or> startswith d ''uuid.''"
    by (rule default_param_factory_iff)
  show "default_param n = ''default=None''" if "lower n \<in> {''none'', ''null''}"
    using that by (auto simp add: default_param_def)
  show "default_param t = (if lower t = ''true'' then ''default=True'' else ''default=False'')"
    if "lower t \<in> {''true'', ''false''}"
    using that by (auto simp add: default_param_def)
  show "field_params (f\<lparr>default := Some d\<rparr>) ! 0 = default_param d"
    by (simp add: field_params_def default_params_def)
  have u: "default_param ''uuid.uuid4'' = ''default_factory=uuid.uuid4''"
    by code_simp
  show "field_params (f\<lparr>default := Some ''uuid.uuid4''\<rparr>) ! 0 = ''default_factory=uuid.uuid4''"
    using u by (simp add: field_params_def default_params_def)
  have v: \<open>default_param ''Uuid.uuid4'' = ''default="Uuid.uuid4"''\<close>
    by code_simp
  show \<open>field_params (f\<lparr>default := Some ''Uuid.uuid4''\<rparr>) ! 0 = ''default="Uuid.uuid4"''\<close>
    using v by (simp add: field_params_def default_params_def)
qed

theorem factory_default_recognition_witness:
  \<open>lower ''NONE'' \<in> {''none'', ''null''} \<and> default_param ''NONE'' = ''default=None''
   \<and> lower ''False'' \<in> {''true'', ''false''} \<and> default_param ''False'' = ''default=False''
   \<and> default_param ''datetime.now'' = ''default_factory=datetime.now''
   \<and> field_params token_field ! 0 = ''default_factory=uuid.uuid4''\<close>
proof -
  have l: "lower ''NONE'' = ''none''" "lower ''False'' = ''false''" by code_simp+
  have "token_field = token_field\<lparr>default := Some ''uuid.uuid4''\<rparr>"
    by (simp add: token_field_def)
  then show ?thesis
    using factory_default_recognition [of "''datetime.now''" "''NONE''" "''False''" token_field] l
    by (simp add: startswith_def)
qed

end
